theory Spec2Isabelle
  imports Complex_Main "HOL-Library.Monad_Syntax"
begin

section \<open>Python values and exceptions\<close>

text \<open>
  The module \<^verbatim>\<open>konx.py\<close> is dynamically typed: a layer's \<^verbatim>\<open>shape\<close>, the entries of
  \<^verbatim>\<open>**params\<close> and the \<^verbatim>\<open>split\<close> argument are arbitrary Python objects that the code
  inspects with \<^verbatim>\<open>isinstance\<close>. They are modelled by one datatype of Python values.
  Python integers are unbounded (\<^typ>\<open>int\<close>); a Python float is taken as the real number
  it denotes (no rounding, no NaN); a callable is an opaque handle.
\<close>

datatype pynum = IntNum int | FloatNum real

datatype pyval =
    PyNone
  | PyNum pynum
  | PyStr string
  | PyTuple "pyval list"
  | PyCallable nat

abbreviation PyInt :: "int \<Rightarrow> pyval" where
  "PyInt n \<equiv> PyNum (IntNum n)"

abbreviation PyFloat :: "real \<Rightarrow> pyval" where
  "PyFloat r \<equiv> PyNum (FloatNum r)"

fun num_val :: "pynum \<Rightarrow> real" where
  "num_val (IntNum n) = of_int n"
| "num_val (FloatNum r) = r"

text \<open>
  Every \<^verbatim>\<open>raise Exception(fmt % args)\<close> of the source is the value
  \<open>Exception fmt args\<close>: the format string and the values formatted into it. The other
  constructors are the built-in exceptions that the library calls of the source raise.
\<close>

datatype error =
    Exception string "pyval list"
  | AttributeError string
  | KeyError string
  | ValueError string
  | TypeError string
  | IOError string

type_synonym 'a result = "error + 'a"

section \<open>Layers\<close>

text \<open>
  Layer objects live in a heap and refer to each other by reference: \<^verbatim>\<open>connect\<close> appends
  the objects themselves to \<^verbatim>\<open>incoming_connections\<close> and \<^verbatim>\<open>outgoing_connections\<close>.
\<close>

type_synonym ref = nat

datatype vshape_val = VInt int | VTuple "int list"

record layer =
  name :: string
  params :: "string \<rightharpoonup> pyval"
  shape :: "int list"
  size_attr :: int
  vshape :: vshape_val
  activation :: pyval
  dropout :: pynum
  incoming_connections :: "ref list"
  outgoing_connections :: "ref list"

type_synonym heap = "ref \<Rightarrow> layer"

subsection \<open>Utility functions\<close>

fun is_pos_int :: "pyval \<Rightarrow> bool" where
  "is_pos_int (PyNum (IntNum n)) = (n > 0)"
| "is_pos_int _ = False"

fun valid_shape :: "pyval \<Rightarrow> bool" where
  "valid_shape (PyNum (IntNum x)) = (x > 0)"
| "valid_shape (PyTuple x) = (length x > 1 \<and> list_all is_pos_int x)"
| "valid_shape _ = False"

text \<open>
  The elements of a tuple and the integers among them; after \<^const>\<open>valid_shape\<close> every
  element of a tuple is an integer. A validated \<^verbatim>\<open>vshape\<close> is stored as it is.
\<close>

fun items :: "pyval \<Rightarrow> pyval list" where
  "items (PyTuple xs) = xs"
| "items _ = []"

fun ints_of :: "pyval list \<Rightarrow> int list" where
  "ints_of [] = []"
| "ints_of (PyNum (IntNum n) # xs) = n # ints_of xs"
| "ints_of (_ # xs) = ints_of xs"

fun is_int :: "pyval \<Rightarrow> bool" where
  "is_int (PyNum (IntNum _)) = True"
| "is_int _ = False"

definition valid_vshape :: "pyval \<Rightarrow> bool" where
  \<comment> \<open>vshape must be a single int or a 2-dimensional tuple\<close>
  "valid_vshape x = (valid_shape x \<and> (is_int x \<or> length (items x) = 2))"

fun as_vshape :: "pyval \<Rightarrow> vshape_val" where
  "as_vshape (PyNum (IntNum n)) = VInt n"
| "as_vshape v = VTuple (ints_of (items v))"

text \<open>
  \<^verbatim>\<open>reduce(f, seq)\<close> without an initial value folds from the left, starting with the
  first element; on an empty sequence it raises \<^verbatim>\<open>TypeError\<close>, which \<^const>\<open>valid_shape\<close>
  excludes at the only call.
\<close>

fun reduce :: "('a \<Rightarrow> 'a \<Rightarrow> 'a) \<Rightarrow> 'a list \<Rightarrow> 'a option" where
  "reduce f [] = None"
| "reduce f (x # xs) = Some (foldl f x xs)"

subsection \<open>Layer.__init__\<close>

definition ACTIVATION_FUNCTIONS :: "pyval list" where
  "ACTIVATION_FUNCTIONS = [PyStr ''relu'', PyStr ''sigmoid'', PyStr ''linear'', PyStr ''softmax'']"

fun callable :: "pyval \<Rightarrow> bool" where
  "callable (PyCallable _) = True"
| "callable _ = False"

text \<open>Lines 182 to 192: the layer topology (shape) and the number of units (size).\<close>

definition init_shape :: "pyval \<Rightarrow> (int list \<times> int) result" where
  "init_shape shp =
    (if \<not> valid_shape shp then Inl (Exception ''bad shape: %s'' [shp])
     else case shp of
         PyNum (IntNum n) \<Rightarrow> Inr ([n], n)
       | _ \<Rightarrow>
           (case reduce (*) (ints_of (items shp)) of
              Some p \<Rightarrow> Inr (ints_of (items shp), p)
            | None \<Rightarrow> Inl (TypeError ''reduce() of empty sequence with no initial value'')))"

text \<open>Lines 194 to 207: the visual shape.\<close>

definition init_vshape :: "(string \<rightharpoonup> pyval) \<Rightarrow> int list \<Rightarrow> int \<Rightarrow> vshape_val result" where
  "init_vshape ps shp sz =
    (case ps ''vshape'' of
       Some vs \<Rightarrow>
         if \<not> valid_vshape vs then Inl (Exception ''bad vshape: %s'' [vs])
         else if (case vs of
                    PyNum (IntNum n) \<Rightarrow> n \<noteq> sz
                  | PyTuple xs \<Rightarrow> ints_of xs ! 0 * ints_of xs ! 1 \<noteq> sz
                  | _ \<Rightarrow> False)
         then Inl (Exception ''vshape incompatible with layer of size %d'' [PyInt sz])
         else Inr (as_vshape vs)
     | None \<Rightarrow>
         if length shp > 2 then Inr (VTuple [sz]) else Inr (VTuple shp))"

text \<open>Lines 209 to 216: the activation function.\<close>

definition init_activation :: "(string \<rightharpoonup> pyval) \<Rightarrow> pyval result" where
  "init_activation ps =
    (case ps ''activation'' of
       Some a \<Rightarrow>
         (let act = (if a = PyNone then PyStr ''linear'' else a)
          in if \<not> (callable act \<or> act \<in> set ACTIVATION_FUNCTIONS)
             then Inl (Exception ''unknown activation function: %s'' [act])
             else Inr act)
     | None \<Rightarrow> Inr (PyStr ''linear''))"

text \<open>Lines 218 to 225: the dropout rate.\<close>

definition init_dropout :: "(string \<rightharpoonup> pyval) \<Rightarrow> pynum result" where
  "init_dropout ps =
    (case ps ''dropout'' of
       Some d0 \<Rightarrow>
         (let d = (if d0 = PyNone then PyInt 0 else d0)
          in case d of
               PyNum n \<Rightarrow>
                 if 0 \<le> num_val n \<and> num_val n \<le> 1 then Inr n
                 else Inl (Exception ''bad dropout rate: %s'' [d])
             | _ \<Rightarrow> Inl (Exception ''bad dropout rate: %s'' [d]))
     | None \<Rightarrow> Inr (IntNum 0))"

definition Layer_init :: "pyval \<Rightarrow> pyval \<Rightarrow> (string \<rightharpoonup> pyval) \<Rightarrow> layer result" where
  "Layer_init nm shp ps =
    (case nm of
       PyStr s \<Rightarrow>
         if \<not> length s > 0 then Inl (Exception ''bad layer name: %s'' [nm])
         else (case init_shape shp of
             Inl e \<Rightarrow> Inl e
           | Inr (sh, sz) \<Rightarrow>
         (case init_vshape ps sh sz of
             Inl e \<Rightarrow> Inl e
           | Inr vs \<Rightarrow>
         (case init_activation ps of
             Inl e \<Rightarrow> Inl e
           | Inr act \<Rightarrow>
         (case init_dropout ps of
             Inl e \<Rightarrow> Inl e
           | Inr d \<Rightarrow>
               Inr \<lparr>name = s, params = ps, shape = sh, size_attr = sz, vshape = vs,
                    activation = act, dropout = d,
                    incoming_connections = [], outgoing_connections = []\<rparr>))))
     | _ \<Rightarrow> Inl (Exception ''bad layer name: %s'' [nm]))"

subsection \<open>Layer.kind, Layer.make_keras_layers, Layer.chain\<close>

definition kind :: "layer \<Rightarrow> string" where
  "kind self =
    (if length (incoming_connections self) = 0 \<and> length (outgoing_connections self) = 0
     then ''unconnected''
     else if length (incoming_connections self) > 0 \<and> length (outgoing_connections self) > 0
     then ''hidden''
     else if length (incoming_connections self) > 0
     then ''output''
     else ''input'')"

text \<open>The descriptors handed to Keras: \<^verbatim>\<open>Dense(size, activation=...)\<close> and \<^verbatim>\<open>Dropout(rate)\<close>.\<close>

datatype klayer = Dense int pyval | Dropout pynum

definition make_keras_layers :: "layer \<Rightarrow> klayer list" where
  "make_keras_layers self =
    (let klayer = (if kind self = ''input'' then []
                   else [Dense (size_attr self) (activation self)])
     in if num_val (dropout self) > 0 then klayer @ [Dropout (dropout self)]
        else klayer)"

text \<open>
  \<^verbatim>\<open>chain\<close> recurses through the heap along the first outgoing connection. Nothing bounds
  the recursion, so it is a partial function: \<open>None\<close> is the call that never returns
  a list (CPython ends such a call with a \<^verbatim>\<open>RecursionError\<close> once its stack is used up;
  the stack limit itself is not modelled).
\<close>

partial_function (option) chain :: "heap \<Rightarrow> ref \<Rightarrow> ref list option" where
  "chain h self =
    (if length (outgoing_connections (h self)) = 0 then Some [self]
     else do { rest \<leftarrow> chain h (outgoing_connections (h self) ! 0); Some ([self] @ rest) })"

section \<open>Networks\<close>

subsection \<open>Arrays\<close>

text \<open>
  A numpy array is its element type and its items along the first axis, each item
  flattened to the list of its scalars; \<^verbatim>\<open>len\<close>, slicing and fancy indexing act on the
  first axis, \<^verbatim>\<open>np.min\<close>, \<^verbatim>\<open>np.max\<close>, \<^verbatim>\<open>astype\<close> and arithmetic on every scalar.
  Scalars are the real numbers they denote. Two element types are told apart: integer
  types, to which \<^verbatim>\<open>astype\<close> truncates towards zero, and floating types.
\<close>

datatype dtype = DInt | DFloat

record ndarray =
  dtype :: dtype
  rows :: "real list list"

definition len :: "ndarray \<Rightarrow> int" where
  "len a = int (length (rows a))"

definition trunc :: "real \<Rightarrow> int" where
  "trunc x = (if 0 \<le> x then \<lfloor>x\<rfloor> else \<lceil>x\<rceil>)"

fun cast :: "dtype \<Rightarrow> real \<Rightarrow> real" where
  "cast DInt x = of_int (trunc x)"
| "cast DFloat x = x"

definition astype :: "ndarray \<Rightarrow> dtype \<Rightarrow> ndarray" where
  "astype a d = \<lparr>dtype = d, rows = map (map (cast d)) (rows a)\<rparr>"

text \<open>
  All scalars of an array, in order. \<^verbatim>\<open>np.min\<close> and \<^verbatim>\<open>np.max\<close> raise \<^verbatim>\<open>ValueError\<close> on
  an array without scalars.
\<close>

definition scalars :: "ndarray \<Rightarrow> real list" where
  "scalars a = concat (rows a)"

definition np_min :: "ndarray \<Rightarrow> real result" where
  "np_min a =
    (case scalars a of
       [] \<Rightarrow> Inl (ValueError ''zero-size array to reduction operation minimum which has no identity'')
     | x # xs \<Rightarrow> Inr (fold min xs x))"

definition np_max :: "ndarray \<Rightarrow> real result" where
  "np_max a =
    (case scalars a of
       [] \<Rightarrow> Inl (ValueError ''zero-size array to reduction operation maximum which has no identity'')
     | x # xs \<Rightarrow> Inr (fold max xs x))"

text \<open>
  Python slices \<^verbatim>\<open>a[:k]\<close> and \<^verbatim>\<open>a[k:]\<close>: a negative bound counts from the end, and
  bounds beyond either end are clamped.
\<close>

definition slice_bound :: "nat \<Rightarrow> int \<Rightarrow> nat" where
  "slice_bound n k = (if k < 0 then nat (int n + k) else nat k)"

definition slice_to :: "ndarray \<Rightarrow> int \<Rightarrow> ndarray" where
  "slice_to a k = a\<lparr>rows := take (slice_bound (length (rows a)) k) (rows a)\<rparr>"

definition slice_from :: "ndarray \<Rightarrow> int \<Rightarrow> ndarray" where
  "slice_from a k = a\<lparr>rows := drop (slice_bound (length (rows a)) k) (rows a)\<rparr>"

text \<open>\<^verbatim>\<open>np.concatenate\<close> of two arrays of one element type, along the first axis.\<close>

definition concatenate :: "ndarray \<Rightarrow> ndarray \<Rightarrow> ndarray" where
  "concatenate a b = a\<lparr>rows := rows a @ rows b\<rparr>"

text \<open>
  Under \<^verbatim>\<open>from __future__ import division\<close> the quotient is a true division, so the
  result is a floating array. (A zero \<open>old_delta\<close> gives numpy's \<^verbatim>\<open>inf\<close> or \<^verbatim>\<open>nan\<close>,
  which the reals do not have; no property below divides by zero.)
\<close>

definition rescale_numpy_array :: "ndarray \<Rightarrow> real \<times> real \<Rightarrow> real \<times> real \<Rightarrow> ndarray" where
  "rescale_numpy_array a old_range new_range =
    (let old_min = fst old_range; old_max = snd old_range;
         new_min = fst new_range; new_max = snd new_range;
         old_delta = old_max - old_min;
         new_delta = new_max - new_min
     in \<lparr>dtype = DFloat,
         rows = map (map (\<lambda>x. new_min + (x - old_min) * new_delta / old_delta)) (rows a)\<rparr>)"

subsection \<open>The Network object\<close>

text \<open>
  An attribute that has not been assigned yet is \<open>None\<close>; reading it raises
  \<^verbatim>\<open>AttributeError\<close>. The dataset attributes do not exist before \<^verbatim>\<open>load_dataset\<close>.
  A method that can raise returns its outcome together with the object as the call
  left it, so that what a failed call has already assigned is visible.
\<close>

record network =
  layers :: "ref list"
  layer_dict :: "string \<rightharpoonup> ref"
  inputs :: "ndarray option"
  labels :: "ndarray option"
  dataset_size :: "int option"
  inputs_range :: "(real \<times> real) option"
  split :: "int option"
  train_inputs :: "ndarray option"
  test_inputs :: "ndarray option"
  train_labels :: "ndarray option"
  test_labels :: "ndarray option"

text \<open>The dict comprehension of \<^verbatim>\<open>__init__\<close>: a later layer replaces an earlier one of the same name.\<close>

definition Network_init :: "heap \<Rightarrow> ref list \<Rightarrow> network" where
  "Network_init h ls =
    \<lparr>layers = ls,
     layer_dict = fold (\<lambda>l d. d(name (h l) \<mapsto> l)) ls Map.empty,
     inputs = None, labels = None, dataset_size = None, inputs_range = None,
     split = None, train_inputs = None, test_inputs = None,
     train_labels = None, test_labels = None\<rparr>"

text \<open>\<^verbatim>\<open>__getitem__\<close> returns a layer or Python's \<^verbatim>\<open>None\<close>.\<close>

definition getitem :: "network \<Rightarrow> string \<Rightarrow> ref option result" where
  "getitem self layer_name =
    (if layer_name \<notin> dom (layer_dict self) then Inr None
     else Inr (layer_dict self layer_name))"

definition connect :: "network \<Rightarrow> string \<Rightarrow> string \<Rightarrow> heap \<Rightarrow> unit result \<times> heap" where
  "connect self from_layer_name to_layer_name h =
    (if from_layer_name \<notin> dom (layer_dict self)
     then (Inl (Exception ''unknown layer: %s'' [PyStr from_layer_name]), h)
     else if to_layer_name \<notin> dom (layer_dict self)
     then (Inl (Exception ''unknown layer: %s'' [PyStr to_layer_name]), h)
     else
       (let from_layer = the (layer_dict self from_layer_name);
            to_layer = the (layer_dict self to_layer_name);
            h1 = h(from_layer := (h from_layer)
                   \<lparr>outgoing_connections := outgoing_connections (h from_layer) @ [to_layer]\<rparr>);
            h2 = h1(to_layer := (h1 to_layer)
                   \<lparr>incoming_connections := incoming_connections (h1 to_layer) @ [from_layer]\<rparr>)
        in (Inr (), h2)))"

subsection \<open>Dataset methods\<close>

text \<open>Lines 113 to 116 of \<^verbatim>\<open>split_dataset\<close>: the four slices at \<^verbatim>\<open>self.split\<close>.\<close>

definition slice_dataset :: "network \<Rightarrow> int \<Rightarrow> unit result \<times> network" where
  "slice_dataset self k =
    (case inputs self of
       None \<Rightarrow> (Inl (AttributeError ''inputs''), self)
     | Some a \<Rightarrow>
         (let s1 = self\<lparr>train_inputs := Some (slice_to a k),
                        test_inputs := Some (slice_from a k)\<rparr>
          in case labels s1 of
               None \<Rightarrow> (Inl (AttributeError ''labels''), s1)
             | Some b \<Rightarrow>
                 (Inr (), s1\<lparr>train_labels := Some (slice_to b k),
                             test_labels := Some (slice_from b k)\<rparr>)))"

text \<open>
  \<^verbatim>\<open>split\<close> is any Python object; \<^verbatim>\<open>int(x)\<close> of a float truncates towards zero. The
  \<^verbatim>\<open>verbose\<close> flag only prints and is left out.
\<close>

definition split_dataset :: "network \<Rightarrow> pyval \<Rightarrow> unit result \<times> network" where
  "split_dataset self sp =
    (case dataset_size self of
       None \<Rightarrow> (Inl (AttributeError ''dataset_size''), self)
     | Some n \<Rightarrow>
         if n = 0 then (Inl (Exception ''no dataset loaded'' []), self)
         else (case sp of
             PyNum (FloatNum r) \<Rightarrow>
               if \<not> (0 \<le> r \<and> r \<le> 1)
               then (Inl (Exception ''split is not in the range 0-1: %s'' [sp]), self)
               else slice_dataset (self\<lparr>split := Some (trunc (of_int n * r))\<rparr>)
                      (trunc (of_int n * r))
           | PyNum (IntNum k) \<Rightarrow>
               if \<not> (0 \<le> k \<and> k \<le> n)
               then (Inl (Exception ''split out of range: %d'' [sp]), self)
               else slice_dataset (self\<lparr>split := Some k\<rparr>) k
           | _ \<Rightarrow> (Inl (Exception ''invalid split: %s'' [sp]), self)))"

text \<open>
  The archive store is a parameter: a path holds an archive or nothing, an archive
  maps keys to arrays. \<^verbatim>\<open>filename[-4:]\<close> is the last four characters, or the whole
  name when it is shorter.
\<close>

type_synonym npz = "string \<rightharpoonup> ndarray"

type_synonym filesystem = "string \<rightharpoonup> npz"

definition last4 :: "string \<Rightarrow> string" where
  "last4 filename = drop (length filename - 4) filename"

text \<open>The body of the \<^verbatim>\<open>try\<close> block of \<^verbatim>\<open>load_dataset\<close> (lines 50 to 63).\<close>

definition load_dataset_try :: "filesystem \<Rightarrow> network \<Rightarrow> string \<Rightarrow> unit result \<times> network" where
  "load_dataset_try fs self filename =
    (case fs filename of
       None \<Rightarrow> (Inl (IOError filename), self)
     | Some f \<Rightarrow>
    (case f ''data'' of
       None \<Rightarrow> (Inl (KeyError ''data''), self)
     | Some d \<Rightarrow>
    (case f ''labels'' of
       None \<Rightarrow> (Inl (KeyError ''labels''), self\<lparr>inputs := Some d\<rparr>)
     | Some l \<Rightarrow>
         (let s2 = self\<lparr>inputs := Some d, labels := Some l\<rparr>
          in if len d \<noteq> len l
             then (Inl (Exception ''Dataset contains different numbers of inputs and labels'' []), s2)
             else if len d = 0
             then (Inl (Exception ''Dataset is empty'' []), s2)
             else
               (let s3 = s2\<lparr>dataset_size := Some (len d)\<rparr>
                in case np_min d of
                     Inl e \<Rightarrow> (Inl e, s3)
                   | Inr lo \<Rightarrow>
                  (case np_max d of
                     Inl e \<Rightarrow> (Inl e, s3)
                   | Inr hi \<Rightarrow>
                       split_dataset (s3\<lparr>inputs_range := Some (lo, hi)\<rparr>) (PyInt (len d))))))))"

text \<open>The bare \<^verbatim>\<open>except\<close> turns every exception of the block into one \<^verbatim>\<open>Exception\<close>.\<close>

definition load_dataset :: "filesystem \<Rightarrow> network \<Rightarrow> string \<Rightarrow> unit result \<times> network" where
  "load_dataset fs self filename =
    (if last4 filename \<noteq> ''.npz''
     then (Inl (Exception ''filename must end in .npz'' []), self)
     else case load_dataset_try fs self filename of
            (Inl e, s) \<Rightarrow> (Inl (Exception ''couldn't load .npz dataset %s'' [PyStr filename]), s)
          | (Inr u, s) \<Rightarrow> (Inr u, s))"

definition rescale_inputs ::
  "network \<Rightarrow> real \<times> real \<Rightarrow> real \<times> real \<Rightarrow> dtype option \<Rightarrow> unit result \<times> network" where
  "rescale_inputs self old_range new_range new_dtype =
    (case inputs self of
       None \<Rightarrow> (Inl (AttributeError ''inputs''), self)
     | Some a0 \<Rightarrow>
         (let s1 = (case new_dtype of
                      None \<Rightarrow> self
                    | Some d \<Rightarrow> self\<lparr>inputs := Some (astype a0 d)\<rparr>);
              a = (case new_dtype of None \<Rightarrow> a0 | Some d \<Rightarrow> astype a0 d);
              old_min = fst old_range; old_max = snd old_range;
              new_min = fst new_range; new_max = snd new_range
          in case np_min a of
               Inl e \<Rightarrow> (Inl e, s1)
             | Inr lo \<Rightarrow>
                 if lo < old_min then (Inl (Exception ''old_range values are wrong'' []), s1)
                 else (case np_max a of
                     Inl e \<Rightarrow> (Inl e, s1)
                   | Inr hi \<Rightarrow>
                       if hi > old_max
                       then (Inl (Exception ''old_range values are wrong'' []), s1)
                       else if new_min \<ge> new_max
                       then (Inl (Exception ''new_range values are wrong'' []), s1)
                       else
                         (let b = rescale_numpy_array a old_range new_range;
                              s2 = s1\<lparr>inputs := Some b\<rparr>
                          in case np_min b of
                               Inl e \<Rightarrow> (Inl e, s2)
                             | Inr lo' \<Rightarrow>
                            (case np_max b of
                               Inl e \<Rightarrow> (Inl e, s2)
                             | Inr hi' \<Rightarrow>
                                 (Inr (), s2\<lparr>inputs_range := Some (lo', hi')\<rparr>))))))"

section \<open>Notions used in the statements\<close>

text \<open>The dimensions of a display shape: an integer \<open>n\<close> stands for the one dimension \<open>n\<close>.\<close>

definition vshape_dims :: "vshape_val \<Rightarrow> int list" where
  "vshape_dims v = (case v of VInt n \<Rightarrow> [n] | VTuple xs \<Rightarrow> xs)"

text \<open>
  The first outgoing connection of each layer, as an edge relation on the heap, and the
  layers met from a layer by following first connections only.
\<close>

definition first_edge :: "heap \<Rightarrow> (ref \<times> ref) set" where
  "first_edge h =
    {(a, b). length (outgoing_connections (h a)) \<noteq> 0 \<and> b = outgoing_connections (h a) ! 0}"

definition first_path :: "heap \<Rightarrow> ref \<Rightarrow> ref set" where
  "first_path h r = (first_edge h)\<^sup>* `` {r}"

subsection \<open>The example networks of the module\<close>

text \<open>
  The layers of the two example networks at the end of \<^verbatim>\<open>konx.py\<close> (lines 283 to 298),
  as \<^verbatim>\<open>Layer.__init__\<close> returns them, in a heap where every other address holds
  \<^verbatim>\<open>output2\<close>; then the heap after the \<^verbatim>\<open>connect\<close> calls of lines 297 and 298, and
  after one more connection that branches, or one that closes a cycle.
\<close>

definition input1 :: layer where
  "input1 = \<lparr>name = ''input1'', params = Map.empty, shape = [2], size_attr = 2,
             vshape = VTuple [2], activation = PyStr ''linear'', dropout = IntNum 0,
             incoming_connections = [], outgoing_connections = []\<rparr>"

definition input2 :: layer where
  "input2 = \<lparr>name = ''input2'', params = Map.empty, shape = [2, 2, 2], size_attr = 8,
             vshape = VTuple [8], activation = PyStr ''linear'', dropout = IntNum 0,
             incoming_connections = [], outgoing_connections = []\<rparr>"

definition grid_layer :: layer where
  "grid_layer = \<lparr>name = ''input1'', params = [''vshape'' \<mapsto> PyTuple [PyInt 8, PyInt 8]],
             shape = [64], size_attr = 64,
             vshape = VTuple [8, 8], activation = PyStr ''linear'', dropout = IntNum 0,
             incoming_connections = [], outgoing_connections = []\<rparr>"

definition hidden :: layer where
  "hidden = \<lparr>name = ''hidden'', params = [''activation'' \<mapsto> PyStr ''sigmoid''], shape = [2],
             size_attr = 2, vshape = VTuple [2], activation = PyStr ''sigmoid'',
             dropout = IntNum 0, incoming_connections = [], outgoing_connections = []\<rparr>"

definition output1 :: layer where
  "output1 = \<lparr>name = ''output1'', params = [''activation'' \<mapsto> PyStr ''sigmoid''], shape = [1],
              size_attr = 1, vshape = VTuple [1], activation = PyStr ''sigmoid'',
              dropout = IntNum 0, incoming_connections = [], outgoing_connections = []\<rparr>"

definition output2 :: layer where
  "output2 = output1\<lparr>name := ''output2''\<rparr>"

definition heap0 :: heap where
  "heap0 = (\<lambda>_. output2)(0 := input1, 1 := hidden, 2 := output1)"

definition net :: network where
  "net = Network_init heap0 [0, 1, 2, 3]"

definition heap1 :: heap where
  "heap1 = snd (connect net ''input1'' ''hidden'' heap0)"

definition heap2 :: heap where
  "heap2 = snd (connect net ''hidden'' ''output1'' heap1)"

definition heap_branch :: heap where
  "heap_branch = snd (connect net ''hidden'' ''output2'' heap2)"

definition heap_cycle :: heap where
  "heap_cycle = snd (connect net ''output1'' ''input1'' heap2)"

text \<open>The first example network with a dropout rate on its input layer.\<close>

definition noisy_input :: layer where
  "noisy_input = input1\<lparr>params := [''dropout'' \<mapsto> PyFloat (1/2)], dropout := FloatNum (1/2)\<rparr>"

definition noisy_heap :: heap where
  "noisy_heap = heap0(0 := noisy_input)"

definition noisy_net :: network where
  "noisy_net = Network_init noisy_heap [0, 1, 2]"

subsection \<open>Example datasets\<close>

text \<open>
  The arrays \<^verbatim>\<open>XOR_inputs\<close> and \<^verbatim>\<open>XOR_targets\<close> of lines 304 and 305, stored as the
  archive \<^verbatim>\<open>xor.npz\<close>, and the network after loading it; an archive of integer pixel
  values with its labels, and the network after loading that.
\<close>

definition XOR_inputs :: ndarray where
  "XOR_inputs = \<lparr>dtype = DFloat, rows = [[0, 0], [0, 1], [1, 0], [1, 1]]\<rparr>"

definition XOR_targets :: ndarray where
  "XOR_targets = \<lparr>dtype = DFloat, rows = [[0], [1], [1], [0]]\<rparr>"

definition xor_fs :: filesystem where
  "xor_fs = [''xor.npz'' \<mapsto> [''data'' \<mapsto> XOR_inputs, ''labels'' \<mapsto> XOR_targets]]"

definition xor_loaded :: network where
  "xor_loaded = snd (load_dataset xor_fs net ''xor.npz'')"

definition pixels :: ndarray where
  "pixels = \<lparr>dtype = DInt, rows = [[0, 128], [255, 64]]\<rparr>"

definition pixel_labels :: ndarray where
  "pixel_labels = \<lparr>dtype = DInt, rows = [[0], [1]]\<rparr>"

definition pixel_fs :: filesystem where
  "pixel_fs = [''pixels.npz'' \<mapsto> [''data'' \<mapsto> pixels, ''labels'' \<mapsto> pixel_labels]]"

definition pixel_net :: network where
  "pixel_net = snd (load_dataset pixel_fs net ''pixels.npz'')"

section \<open>Layer construction\<close>

lemma foldl_mult_prod: "foldl (*) (x::int) xs = x * prod_list xs"
  by (induction xs arbitrary: x) (simp_all add: mult.assoc)

lemma reduce_mult:
  "reduce (*) (xs::int list) = Some p \<Longrightarrow> p = prod_list xs"
  by (cases xs) (auto simp: foldl_mult_prod)

lemma ints_of_valid: "list_all is_pos_int xs \<Longrightarrow> map PyInt (ints_of xs) = xs"
  by (induction xs rule: ints_of.induct) auto

lemma is_pos_int_D: "is_pos_int x \<Longrightarrow> \<exists>n. x = PyInt n \<and> 0 < n"
  by (cases x rule: is_pos_int.cases) auto

lemma pos_int_pair:
  assumes "list_all is_pos_int xs" and "length xs = 2"
  shows "\<exists>a b. xs = [PyInt a, PyInt b] \<and> 0 < a \<and> 0 < b"
proof -
  from assms(2) obtain x y where xy: "xs = [x, y]"
    by (cases xs; cases "tl xs") auto
  with assms(1) show ?thesis by (auto dest!: is_pos_int_D)
qed

lemma init_shape_Inr:
  assumes "init_shape shp = Inr (sh, sz)"
  shows "sz = prod_list sh"
    and "\<And>n. shp = PyInt n \<Longrightarrow> sh = [n] \<and> sz = n \<and> 0 < n"
    and "\<And>xs. shp = PyTuple xs \<Longrightarrow> map PyInt sh = xs \<and> 1 < length xs"
  using assms
  by (auto simp: init_shape_def ints_of_valid
      split: if_splits pyval.splits pynum.splits option.splits dest: reduce_mult)

lemma init_vshape_Inr:
  assumes "init_vshape ps sh sz = Inr v" and "sz = prod_list sh"
  shows "prod_list (vshape_dims v) = sz"
    and "\<And>n. ps ''vshape'' = Some (PyInt n) \<Longrightarrow> v = VInt n \<and> n = sz"
    and "\<And>xs. ps ''vshape'' = Some (PyTuple xs) \<Longrightarrow>
           (\<exists>a b. xs = [PyInt a, PyInt b] \<and> v = VTuple [a, b] \<and> a * b = sz)"
    and "ps ''vshape'' = None \<Longrightarrow> length sh \<le> 2 \<Longrightarrow> v = VTuple sh"
    and "ps ''vshape'' = None \<Longrightarrow> length sh > 2 \<Longrightarrow> v = VTuple [sz]"
  using assms
  by (auto simp: init_vshape_def valid_vshape_def vshape_dims_def
      split: option.splits if_splits pyval.splits pynum.splits dest!: pos_int_pair)

lemma Layer_init_Inr:
  assumes "Layer_init nm shp ps = Inr l"
  shows "init_shape shp = Inr (shape l, size_attr l)"
    and "init_vshape ps (shape l) (size_attr l) = Inr (vshape l)"
    and "init_activation ps = Inr (activation l)"
    and "init_dropout ps = Inr (dropout l)"
    and "nm = PyStr (name l)" and "name l \<noteq> []"
    and "incoming_connections l = []" and "outgoing_connections l = []"
  using assms
  by (auto simp: Layer_init_def split: pyval.splits if_splits sum.splits prod.splits)

text \<open>
  C6. A layer that \<^verbatim>\<open>Layer.__init__\<close> constructs was given a valid shape (a positive
  integer, or a tuple of at least two positive integers), and its \<^verbatim>\<open>size\<close> is the
  product of the dimensions of its \<^verbatim>\<open>shape\<close>. An integer shape \<open>n\<close> is stored as the
  one-element shape \<open>(n,)\<close> with size \<open>n\<close>, the product of \<open>(n,)\<close>; a tuple is stored
  as it is.
\<close>

theorem layer_size_is_product:
  assumes "Layer_init nm shp ps = Inr l"
  shows "valid_shape shp
         \<and> size_attr l = prod_list (shape l)
         \<and> (\<forall>n. shp = PyInt n \<longrightarrow> shape l = [n] \<and> size_attr l = n \<and> size_attr l = prod_list [n])
         \<and> (\<forall>xs. shp = PyTuple xs \<longrightarrow> map PyInt (shape l) = xs)"
proof -
  have s: "init_shape shp = Inr (shape l, size_attr l)"
    using assms by (rule Layer_init_Inr)
  have v: "valid_shape shp"
    using s by (auto simp: init_shape_def split: if_splits)
  show ?thesis
    using v init_shape_Inr[OF s] by auto
qed

theorem layer_size_is_product_witness:
  "Layer_init (PyStr ''input2'') (PyTuple [PyInt 2, PyInt 2, PyInt 2]) Map.empty = Inr input2
   \<and> size_attr input2 = prod_list (shape input2)
   \<and> Layer_init (PyStr ''input1'') (PyInt 2) Map.empty = Inr input1
   \<and> shape input1 = [2] \<and> size_attr input1 = 2"
proof -
  have a: "Layer_init (PyStr ''input2'') (PyTuple [PyInt 2, PyInt 2, PyInt 2]) Map.empty
            = Inr input2"
    by (simp add: Layer_init_def init_shape_def init_vshape_def valid_vshape_def init_activation_def
        init_dropout_def input2_def)
  have b: "Layer_init (PyStr ''input1'') (PyInt 2) Map.empty = Inr input1"
    by (simp add: Layer_init_def init_shape_def init_vshape_def valid_vshape_def init_activation_def
        init_dropout_def input1_def)
  show ?thesis
    using a b layer_size_is_product[OF a] layer_size_is_product[OF b] by simp
qed

text \<open>
  C9. For every layer that \<^verbatim>\<open>Layer.__init__\<close> constructs, the product of the dimensions
  of \<^verbatim>\<open>vshape\<close> equals \<^verbatim>\<open>size\<close>, in each of the four cases: an explicit integer
  \<^verbatim>\<open>vshape\<close> (stored as given, equal to the size), an explicit 2-tuple (stored as given,
  its two entries multiplying to the size), the default \<^verbatim>\<open>shape\<close> when the shape has at
  most two dimensions, and the default \<open>(size,)\<close> when it has more.
\<close>

theorem vshape_product_is_size:
  assumes "Layer_init nm shp ps = Inr l"
  shows "prod_list (vshape_dims (vshape l)) = size_attr l
    \<and> (\<forall>n. ps ''vshape'' = Some (PyInt n) \<longrightarrow> vshape l = VInt n \<and> n = size_attr l)
    \<and> (\<forall>xs. ps ''vshape'' = Some (PyTuple xs) \<longrightarrow>
          (\<exists>a b. xs = [PyInt a, PyInt b] \<and> vshape l = VTuple [a, b] \<and> a * b = size_attr l))
    \<and> (ps ''vshape'' = None \<and> length (shape l) \<le> 2 \<longrightarrow> vshape l = VTuple (shape l))
    \<and> (ps ''vshape'' = None \<and> length (shape l) > 2 \<longrightarrow> vshape l = VTuple [size_attr l])"
proof -
  have s: "init_shape shp = Inr (shape l, size_attr l)"
    and v: "init_vshape ps (shape l) (size_attr l) = Inr (vshape l)"
    using assms by (rule Layer_init_Inr)+
  have p: "size_attr l = prod_list (shape l)"
    using s by (rule init_shape_Inr)
  show ?thesis
    using init_vshape_Inr[OF v p] by blast
qed

theorem vshape_product_is_size_witness:
  "Layer_init (PyStr ''input1'') (PyInt 64) [''vshape'' \<mapsto> PyTuple [PyInt 8, PyInt 8]]
     = Inr grid_layer
   \<and> vshape grid_layer = VTuple [8, 8]
   \<and> prod_list (vshape_dims (vshape grid_layer)) = size_attr grid_layer
   \<and> size_attr grid_layer = 64
   \<and> Layer_init (PyStr ''input2'') (PyTuple [PyInt 2, PyInt 2, PyInt 2]) Map.empty = Inr input2
   \<and> vshape input2 = VTuple [8]
   \<and> prod_list (vshape_dims (vshape input2)) = size_attr input2"
proof -
  have a: "Layer_init (PyStr ''input1'') (PyInt 64) [''vshape'' \<mapsto> PyTuple [PyInt 8, PyInt 8]]
            = Inr grid_layer"
    by (simp add: Layer_init_def init_shape_def init_vshape_def valid_vshape_def init_activation_def
        init_dropout_def grid_layer_def)
  have b: "Layer_init (PyStr ''input2'') (PyTuple [PyInt 2, PyInt 2, PyInt 2]) Map.empty
            = Inr input2"
    by (simp add: Layer_init_def init_shape_def init_vshape_def valid_vshape_def init_activation_def
        init_dropout_def input2_def)
  have "vshape grid_layer = VTuple [8, 8]" "size_attr grid_layer = 64"
    "vshape input2 = VTuple [8]"
    by (simp_all add: grid_layer_def input2_def)
  then show ?thesis
    using a b vshape_product_is_size[OF a] vshape_product_is_size[OF b] by simp
qed

section \<open>Layer.make_keras_layers\<close>

lemma noisy_input_constructed:
  "Layer_init (PyStr ''input1'') (PyInt 2) [''dropout'' \<mapsto> PyFloat (1/2)] = Inr noisy_input"
  by (simp add: Layer_init_def init_shape_def init_vshape_def valid_vshape_def init_activation_def
      init_dropout_def noisy_input_def input1_def)

text \<open>
  C3, as stated, fails: an input-kind layer with a positive dropout rate does not give the
  empty sequence but one dropout descriptor. The layer is \<^verbatim>\<open>Layer("input1", shape=2,
  dropout=0.5)\<close>, connected to \<^verbatim>\<open>hidden\<close>.
\<close>

theorem input_layer_dropout_counterexample:
  "fst (connect noisy_net ''input1'' ''hidden'' noisy_heap) = Inr ()
   \<and> kind (snd (connect noisy_net ''input1'' ''hidden'' noisy_heap) 0) = ''input''
   \<and> make_keras_layers (snd (connect noisy_net ''input1'' ''hidden'' noisy_heap) 0)
       = [Dropout (FloatNum (1/2))]
   \<and> make_keras_layers (snd (connect noisy_net ''input1'' ''hidden'' noisy_heap) 0) \<noteq> []"
  by (simp add: connect_def noisy_net_def Network_init_def noisy_heap_def heap0_def
      noisy_input_def input1_def hidden_def output1_def dom_def Let_def kind_def
      make_keras_layers_def)

text \<open>
  C3, amended. For every layer, \<^verbatim>\<open>make_keras_layers\<close> returns the dense part (nothing
  for an input-kind layer, otherwise one dense descriptor of width \<^verbatim>\<open>size\<close> with the
  layer's activation) followed by one dropout descriptor exactly when the dropout rate
  is greater than 0, for input-kind layers too. So the sequence is empty exactly for an
  input-kind layer whose dropout rate is not greater than 0.
\<close>

theorem make_keras_layers_descriptors:
  "make_keras_layers l =
     (if kind l = ''input'' then [] else [Dense (size_attr l) (activation l)])
     @ (if 0 < num_val (dropout l) then [Dropout (dropout l)] else [])
   \<and> (make_keras_layers l = []) = (kind l = ''input'' \<and> \<not> 0 < num_val (dropout l))"
  by (simp add: make_keras_layers_def Let_def)

section \<open>The example heaps\<close>

lemma layers_constructed:
  "Layer_init (PyStr ''input1'') (PyInt 2) Map.empty = Inr input1"
  "Layer_init (PyStr ''hidden'') (PyInt 2) [''activation'' \<mapsto> PyStr ''sigmoid''] = Inr hidden"
  "Layer_init (PyStr ''output1'') (PyInt 1) [''activation'' \<mapsto> PyStr ''sigmoid''] = Inr output1"
  by (simp_all add: Layer_init_def init_shape_def init_vshape_def valid_vshape_def init_activation_def
      init_dropout_def input1_def hidden_def output1_def ACTIVATION_FUNCTIONS_def)

lemma net_dict:
  "layer_dict net ''input1'' = Some 0" "layer_dict net ''hidden'' = Some 1"
  "layer_dict net ''output1'' = Some 2" "layer_dict net ''output2'' = Some 3"
  "layer_dict net ''missing'' = None"
  by (simp_all add: net_def Network_init_def heap0_def input1_def hidden_def output1_def output2_def)

lemma heap2_out:
  "outgoing_connections (heap2 0) = [1]" "outgoing_connections (heap2 1) = [2]"
  "outgoing_connections (heap2 (Suc 0)) = [2]" "outgoing_connections (heap2 2) = []"
  by (simp_all add: heap2_def heap1_def connect_def net_dict dom_def Let_def heap0_def input1_def hidden_def output1_def)

lemma heap_branch_out:
  "outgoing_connections (heap_branch 0) = [1]" "outgoing_connections (heap_branch 1) = [2, 3]"
  "outgoing_connections (heap_branch (Suc 0)) = [2, 3]"
  "outgoing_connections (heap_branch 2) = []"  "outgoing_connections (heap_branch 3) = []"
  by (simp_all add: heap_branch_def heap2_def heap1_def connect_def net_dict dom_def Let_def heap0_def input1_def hidden_def output1_def output2_def)

lemma heap_cycle_out:
  "outgoing_connections (heap_cycle 0) = [1]" "outgoing_connections (heap_cycle 1) = [2]"
  "outgoing_connections (heap_cycle (Suc 0)) = [2]"
  "outgoing_connections (heap_cycle 2) = [0]"
  by (simp_all add: heap_cycle_def heap2_def heap1_def connect_def net_dict dom_def Let_def heap0_def input1_def hidden_def output1_def output2_def)

section \<open>Layer.chain\<close>

lemma first_path_end:
  assumes "length (outgoing_connections (h r)) = 0"
  shows "first_path h r = {r}"
proof -
  have "\<And>x. (r, x) \<in> (first_edge h)\<^sup>* \<Longrightarrow> x = r"
    using assms by (auto elim: converse_rtranclE simp: first_edge_def)
  then show ?thesis by (auto simp: first_path_def)
qed

lemma first_path_step:
  assumes "length (outgoing_connections (h r)) \<noteq> 0"
  shows "first_path h r = insert r (first_path h (outgoing_connections (h r) ! 0))"
proof -
  let ?c = "outgoing_connections (h r) ! 0"
  have e: "(r, ?c) \<in> first_edge h" using assms by (simp add: first_edge_def)
  have u: "\<And>b. (r, b) \<in> first_edge h \<Longrightarrow> b = ?c" by (simp add: first_edge_def)
  show ?thesis
  proof (intro set_eqI iffI)
    fix x assume "x \<in> first_path h r"
    then have "(r, x) \<in> (first_edge h)\<^sup>*" by (simp add: first_path_def)
    then show "x \<in> insert r (first_path h ?c)"
      by (cases rule: converse_rtranclE) (auto dest: u simp: first_path_def)
  next
    fix x assume "x \<in> insert r (first_path h ?c)"
    then show "x \<in> first_path h r"
      using e by (auto simp: first_path_def intro: converse_rtrancl_into_rtrancl)
  qed
qed

lemma chain_end: "length (outgoing_connections (h r)) = 0 \<Longrightarrow> chain h r = Some [r]"
  by (subst chain.simps) simp

lemma chain_step:
  "length (outgoing_connections (h r)) \<noteq> 0 \<Longrightarrow>
   chain h r = map_option (\<lambda>rest. r # rest) (chain h (outgoing_connections (h r) ! 0))"
  by (subst chain.simps) (cases "chain h (outgoing_connections (h r) ! 0)"; simp)

lemma chain_Some_path:
  assumes "chain h r = Some p"
  shows "set p = first_path h r \<and> distinct p
         \<and> (\<forall>x\<in>first_path h r. (x, x) \<notin> (first_edge h)\<^sup>+)"
  using assms
proof (induction h r p rule: chain.raw_induct[rotated 1, consumes 1])
  case (1 chain' h r p)
  show ?case
  proof (cases "length (outgoing_connections (h r)) = 0")
    case True
    then have p: "p = [r]" using 1(2) by simp
    have "(r, r) \<notin> (first_edge h)\<^sup>+"
      using True by (auto dest!: tranclD simp: first_edge_def)
    then show ?thesis using True by (simp add: p first_path_end[of h r])
  next
    case False
    let ?c = "outgoing_connections (h r) ! 0"
    from False 1(2) obtain rest where r: "chain' h ?c = Some rest" and p: "p = r # rest"
      by (auto split: bind_splits)
    note ih = 1(1)[OF r]
    have e: "(r, ?c) \<in> first_edge h" using False by (simp add: first_edge_def)
    have u: "\<And>b. (r, b) \<in> first_edge h \<Longrightarrow> b = ?c" by (simp add: first_edge_def)
    have nr: "(r, r) \<notin> (first_edge h)\<^sup>+"
    proof
      assume "(r, r) \<in> (first_edge h)\<^sup>+"
      then obtain z where "(r, z) \<in> first_edge h" and "(z, r) \<in> (first_edge h)\<^sup>*"
        by (blast dest: tranclD)
      then have "(?c, r) \<in> (first_edge h)\<^sup>*"
        using u by blast
      then have "r \<in> first_path h ?c" by (simp add: first_path_def)
      moreover from this have "(r, r) \<notin> (first_edge h)\<^sup>+" using ih by blast
      ultimately show False using \<open>(r, r) \<in> (first_edge h)\<^sup>+\<close> by blast
    qed
    have "r \<notin> first_path h ?c"
    proof
      assume "r \<in> first_path h ?c"
      then have "(?c, r) \<in> (first_edge h)\<^sup>*" by (simp add: first_path_def)
      with e have "(r, r) \<in> (first_edge h)\<^sup>+" by (rule rtrancl_into_trancl2)
      with nr show False ..
    qed
    with ih nr False show ?thesis
      by (simp add: p first_path_step[of h r])
  qed
qed

lemma acyclic_path_chain:
  assumes fin: "finite (first_path h r)"
    and acyc: "\<forall>x\<in>first_path h r. (x, x) \<notin> (first_edge h)\<^sup>+"
  shows "\<exists>p. chain h r = Some p"
proof -
  define R where "R = first_edge h \<inter> (first_path h r \<times> first_path h r)"
  have "finite R" unfolding R_def using fin by auto
  moreover have "acyclic R"
  proof (rule acyclicI, rule allI, rule notI)
    fix x assume x: "(x, x) \<in> R\<^sup>+"
    have "R \<subseteq> first_edge h" by (auto simp: R_def)
    then have "(x, x) \<in> (first_edge h)\<^sup>+" using x trancl_mono by blast
    moreover have "x \<in> first_path h r"
      using x by (auto dest!: tranclD simp: R_def)
    ultimately show False using acyc by blast
  qed
  ultimately have wf: "wf (R\<inverse>)" by (rule finite_acyclic_wf_converse)
  have "x \<in> first_path h r \<Longrightarrow> \<exists>p. chain h x = Some p" for x
  proof (induction x rule: wf_induct_rule[OF wf])
    case (1 x)
    show ?case
    proof (cases "length (outgoing_connections (h x)) = 0")
      case True
      then show ?thesis by (simp add: chain_end)
    next
      case False
      let ?c = "outgoing_connections (h x) ! 0"
      have e: "(x, ?c) \<in> first_edge h" using False by (simp add: first_edge_def)
      have c: "?c \<in> first_path h r"
        using 1(2) e by (auto simp: first_path_def intro: rtrancl_into_rtrancl)
      have "(?c, x) \<in> R\<inverse>" using e c 1(2) by (simp add: R_def)
      from 1(1)[OF this c] obtain p where "chain h ?c = Some p" ..
      then show ?thesis using False by (simp add: chain_step[of h x])
    qed
  qed
  then show ?thesis by (simp add: first_path_def)
qed

lemma first_edge_increasing:
  assumes "\<And>a b. (a, b) \<in> first_edge h \<Longrightarrow> a < b"
  shows "(x, x) \<notin> (first_edge h)\<^sup>+"
proof
  assume x: "(x, x) \<in> (first_edge h)\<^sup>+"
  have "(a, b) \<in> (first_edge h)\<^sup>+ \<Longrightarrow> a < b" for a b
    by (induction rule: trancl.induct) (auto dest!: assms)
  from this[OF x] show False by simp
qed

lemma heap2_path: "first_path heap2 0 = {0, 1, 2}"
  by (simp add: first_path_step first_path_end heap2_out insert_commute)

lemma heap2_edges: "(a, b) \<in> first_edge heap2 \<Longrightarrow> a < b"
  by (cases "a = 0"; cases "a = 1")
     (auto simp: first_edge_def heap2_out heap2_def heap1_def connect_def net_dict dom_def
        Let_def heap0_def output2_def output1_def input1_def hidden_def)

lemma heap_cycle_edges:
  "(0, 1) \<in> first_edge heap_cycle" "(1, 2) \<in> first_edge heap_cycle"
  "(2, 0) \<in> first_edge heap_cycle"
  by (simp_all add: first_edge_def heap_cycle_out)

lemma heap_cycle_path: "first_path heap_cycle 0 = {0, 1, 2}"
proof
  show "first_path heap_cycle 0 \<subseteq> {0, 1, 2}"
  proof
    fix x assume "x \<in> first_path heap_cycle 0"
    then have "(0, x) \<in> (first_edge heap_cycle)\<^sup>*" by (simp add: first_path_def)
    then show "x \<in> {0, 1, 2}"
      by (induction rule: rtrancl_induct) (auto simp: first_edge_def heap_cycle_out)
  qed
  have "(0, 1) \<in> (first_edge heap_cycle)\<^sup>*"
    using heap_cycle_edges(1) by (rule r_into_rtrancl)
  moreover from this have "(0, 2) \<in> (first_edge heap_cycle)\<^sup>*"
    using heap_cycle_edges(2) by (rule rtrancl_into_rtrancl)
  ultimately show "{0, 1, 2} \<subseteq> first_path heap_cycle 0"
    by (simp add: first_path_def)
qed

lemma heap_cycle_loop: "(0, 0) \<in> (first_edge heap_cycle)\<^sup>+"
proof -
  have "(0, 1) \<in> (first_edge heap_cycle)\<^sup>+"
    using heap_cycle_edges(1) by (rule r_into_trancl)
  then have "(0, 2) \<in> (first_edge heap_cycle)\<^sup>+"
    using heap_cycle_edges(2) by (rule trancl_into_trancl)
  then show ?thesis
    using heap_cycle_edges(3) by (rule trancl_into_trancl)
qed

text \<open>
  C8. \<^verbatim>\<open>chain()\<close> returns \<open>[self]\<close> for a layer without outgoing connections, and
  otherwise \<open>[self]\<close> followed by the \<^verbatim>\<open>chain()\<close> of the first outgoing connection
  (and returns nothing when that call returns nothing). Every list it returns holds
  exactly the layers met by following first connections, so a layer reached only through
  a second or later outgoing connection is not in it.
\<close>

theorem chain_first_connection_only:
  "(length (outgoing_connections (h r)) = 0 \<longrightarrow> chain h r = Some [r])
   \<and> (length (outgoing_connections (h r)) \<noteq> 0 \<longrightarrow>
        chain h r = map_option (\<lambda>rest. [r] @ rest) (chain h (outgoing_connections (h r) ! 0)))
   \<and> (\<forall>p. chain h r = Some p \<longrightarrow> set p = first_path h r)"
  using chain_end[of h r] chain_step[of h r] chain_Some_path[of h r] by simp

theorem chain_first_connection_only_witness:
  "length (outgoing_connections (heap_branch 3)) = 0
   \<and> chain heap_branch 3 = Some [3]
   \<and> length (outgoing_connections (heap_branch 1)) \<noteq> 0
   \<and> outgoing_connections (heap_branch 1) = [2, 3]
   \<and> chain heap_branch 1 = Some [1, 2]
   \<and> 3 \<notin> first_path heap_branch 1"
proof -
  have 3: "chain heap_branch 3 = Some [3]"
    using chain_first_connection_only[of heap_branch 3] by (simp add: heap_branch_out)
  have 2: "chain heap_branch 2 = Some [2]"
    using chain_first_connection_only[of heap_branch 2] by (simp add: heap_branch_out)
  have 1: "chain heap_branch 1 = Some [1, 2]"
    using chain_first_connection_only[of heap_branch 1] 2 by (simp add: heap_branch_out)
  have "first_path heap_branch 1 = set [1, 2]"
    using chain_first_connection_only[of heap_branch 1] 1 by simp
  then have "3 \<notin> first_path heap_branch 1" by simp
  then show ?thesis using 1 3 by (simp add: heap_branch_out)
qed

text \<open>
  C10. In a heap where finitely many layers are met from a layer by following first
  outgoing connections: if none of them lies on a cycle of first connections,
  \<^verbatim>\<open>chain()\<close> returns a list, which holds each of these layers once, so its length is
  the length of that path; if one of them lies on such a cycle, \<^verbatim>\<open>chain()\<close> does not
  return a list. (\<^verbatim>\<open>connect\<close> builds such a cycle: see the witness.)
\<close>

theorem chain_terminates_iff_acyclic:
  assumes "finite (first_path h r)"
  shows "((\<forall>x\<in>first_path h r. (x, x) \<notin> (first_edge h)\<^sup>+) \<longrightarrow>
            (\<exists>p. chain h r = Some p \<and> length p = card (first_path h r)
                 \<and> set p = first_path h r \<and> distinct p))
       \<and> ((\<exists>x\<in>first_path h r. (x, x) \<in> (first_edge h)\<^sup>+) \<longrightarrow> chain h r = None)"
proof (intro conjI impI)
  assume "\<forall>x\<in>first_path h r. (x, x) \<notin> (first_edge h)\<^sup>+"
  with assms obtain p where p: "chain h r = Some p"
    using acyclic_path_chain by blast
  from chain_Some_path[OF p] have "set p = first_path h r" and "distinct p" by simp_all
  moreover from this have "length p = card (first_path h r)"
    using distinct_card by fastforce
  ultimately show "\<exists>p. chain h r = Some p \<and> length p = card (first_path h r)
                 \<and> set p = first_path h r \<and> distinct p"
    using p by blast
next
  assume c: "\<exists>x\<in>first_path h r. (x, x) \<in> (first_edge h)\<^sup>+"
  show "chain h r = None"
  proof (cases "chain h r")
    case (Some p)
    from chain_Some_path[OF Some] c show ?thesis by blast
  qed simp
qed

theorem chain_terminates_iff_acyclic_witness:
  "finite (first_path heap2 0)
   \<and> first_path heap2 0 = {0, 1, 2}
   \<and> (0, 0) \<notin> (first_edge heap2)\<^sup>+
   \<and> (1, 1) \<notin> (first_edge heap2)\<^sup>+
   \<and> (2, 2) \<notin> (first_edge heap2)\<^sup>+
   \<and> chain heap2 0 = Some [0, 1, 2]
   \<and> length [0::nat, 1, 2] = card (first_path heap2 0)
   \<and> finite (first_path heap_cycle 0)
   \<and> 0 \<in> first_path heap_cycle 0
   \<and> (0, 0) \<in> (first_edge heap_cycle)\<^sup>+
   \<and> chain heap_cycle 0 = None"
proof -
  have f: "finite (first_path heap2 0)" by (simp add: heap2_path)
  have n: "(x, x) \<notin> (first_edge heap2)\<^sup>+" for x
    using first_edge_increasing[of heap2] heap2_edges by blast
  then have a: "\<forall>x\<in>first_path heap2 0. (x, x) \<notin> (first_edge heap2)\<^sup>+" by blast
  have c: "chain heap2 0 = Some [0, 1, 2]"
    by (simp add: chain_step chain_end heap2_out)
  have fc: "finite (first_path heap_cycle 0)" by (simp add: heap_cycle_path)
  have m: "0 \<in> first_path heap_cycle 0" by (simp add: heap_cycle_path)
  then have l: "\<exists>x\<in>first_path heap_cycle 0. (x, x) \<in> (first_edge heap_cycle)\<^sup>+"
    using heap_cycle_loop by blast
  from chain_terminates_iff_acyclic[OF f] a c
  have "length [0::nat, 1, 2] = card (first_path heap2 0)" by auto
  moreover from chain_terminates_iff_acyclic[OF fc] l
  have "chain heap_cycle 0 = None" by blast
  ultimately show ?thesis using f n c fc m heap_cycle_loop heap2_path by blast
qed

section \<open>Network.__getitem__ and Network.connect\<close>

lemma dom_fold_names:
  "dom (fold (\<lambda>l d. d(name (h l) \<mapsto> l)) ls m) = dom m \<union> (\<lambda>l. name (h l)) ` set ls"
  by (induction ls arbitrary: m) auto

lemma dom_layer_dict: "dom (layer_dict (Network_init h ls)) = (\<lambda>l. name (h l)) ` set ls"
  by (simp add: Network_init_def dom_fold_names)

text \<open>
  C4, as stated, fails: indexing the example network with a name that none of its layers
  has returns \<^verbatim>\<open>None\<close> and raises nothing.
\<close>

theorem getitem_unknown_counterexample:
  "layer_dict net ''missing'' = None
   \<and> getitem net ''missing'' = Inr None
   \<and> \<not> isl (getitem net ''missing'')"
  by (simp add: getitem_def net_dict dom_def)

text \<open>
  C4, amended. Indexing a network by a name never fails: it returns what \<^verbatim>\<open>layer_dict\<close>
  holds for the name, and for a network built from a list of layers it returns
  \<^verbatim>\<open>None\<close> exactly when the string is not the name of one of these layers.
\<close>

theorem getitem_returns_None:
  "getitem self layer_name = Inr (layer_dict self layer_name)
   \<and> (getitem (Network_init h ls) layer_name = Inr None)
       = (layer_name \<notin> (\<lambda>l. name (h l)) ` set ls)"
proof -
  have a: "getitem s n = Inr (layer_dict s n)" for s n
    by (auto simp: getitem_def dom_def)
  have "(layer_dict (Network_init h ls) layer_name = None)
        = (layer_name \<notin> dom (layer_dict (Network_init h ls)))"
    by (simp add: domIff)
  then have "(layer_dict (Network_init h ls) layer_name = None)
        = (layer_name \<notin> (\<lambda>l. name (h l)) ` set ls)"
    by (simp only: dom_layer_dict)
  then show ?thesis by (simp add: a)
qed

text \<open>
  C5. When \<^verbatim>\<open>from_layer_name\<close> or \<^verbatim>\<open>to_layer_name\<close> is not a key of \<^verbatim>\<open>layer_dict\<close>,
  \<^verbatim>\<open>connect\<close> raises the exception \<^verbatim>\<open>'unknown layer: %s'\<close> for the first unknown name
  (the lookup error of the specification; the source raises a plain \<^verbatim>\<open>Exception\<close>), and
  the heap is as before: the \<^verbatim>\<open>incoming_connections\<close> and \<^verbatim>\<open>outgoing_connections\<close> of
  every layer are unchanged.
\<close>

theorem connect_unknown_fails_unchanged:
  assumes "from_layer_name \<notin> dom (layer_dict self) \<or> to_layer_name \<notin> dom (layer_dict self)"
  shows "fst (connect self from_layer_name to_layer_name h)
           = Inl (Exception ''unknown layer: %s''
                   [PyStr (if from_layer_name \<notin> dom (layer_dict self)
                           then from_layer_name else to_layer_name)])
         \<and> snd (connect self from_layer_name to_layer_name h) = h
         \<and> (\<forall>l. incoming_connections (snd (connect self from_layer_name to_layer_name h) l)
                   = incoming_connections (h l)
               \<and> outgoing_connections (snd (connect self from_layer_name to_layer_name h) l)
                   = outgoing_connections (h l))"
  using assms by (auto simp: connect_def)

theorem connect_unknown_fails_unchanged_witness:
  "''missing'' \<notin> dom (layer_dict net)
   \<and> fst (connect net ''input1'' ''missing'' heap0)
       = Inl (Exception ''unknown layer: %s'' [PyStr ''missing''])
   \<and> snd (connect net ''input1'' ''missing'' heap0) = heap0
   \<and> outgoing_connections (snd (connect net ''input1'' ''missing'' heap0) 0) = []"
proof -
  have m: "''missing'' \<notin> dom (layer_dict net)" and i: "''input1'' \<in> dom (layer_dict net)"
    by (simp_all add: net_dict dom_def)
  have o: "outgoing_connections (heap0 0) = []" by (simp add: heap0_def input1_def)
  from m have "''input1'' \<notin> dom (layer_dict net) \<or> ''missing'' \<notin> dom (layer_dict net)" ..
  from connect_unknown_fails_unchanged[OF this, of heap0] m i o show ?thesis by simp
qed

section \<open>Dataset methods\<close>

lemma slice_bound_len [simp]: "slice_bound n (int n) = n"
  by (simp add: slice_bound_def)

lemma slice_whole:
  "slice_to a (len a) = a" "slice_from a (len a) = a\<lparr>rows := []\<rparr>"
  by (simp_all add: slice_to_def slice_from_def len_def)

lemma concatenate_slices: "concatenate (slice_to a k) (slice_from a k) = a"
  by (simp add: concatenate_def slice_to_def slice_from_def)

lemma slice_dataset_Inr:
  assumes "inputs s = Some a" and "labels s = Some b"
  shows "slice_dataset s k =
    (Inr (), s\<lparr>train_inputs := Some (slice_to a k), test_inputs := Some (slice_from a k),
               train_labels := Some (slice_to b k), test_labels := Some (slice_from b k)\<rparr>)"
  using assms by (simp add: slice_dataset_def)

lemma split_dataset_int:
  assumes "inputs s = Some a" and "labels s = Some b" and "dataset_size s = Some n"
    and "n \<noteq> 0" and "0 \<le> k" and "k \<le> n"
  shows "split_dataset s (PyInt k) =
    (Inr (), s\<lparr>split := Some k,
               train_inputs := Some (slice_to a k), test_inputs := Some (slice_from a k),
               train_labels := Some (slice_to b k), test_labels := Some (slice_from b k)\<rparr>)"
  using assms by (simp add: split_dataset_def slice_dataset_Inr)

lemma split_dataset_float:
  assumes "inputs s = Some a" and "labels s = Some b" and "dataset_size s = Some n"
    and "n \<noteq> 0" and "0 \<le> r" and "r \<le> 1"
  shows "split_dataset s (PyFloat r) =
    (Inr (), s\<lparr>split := Some (trunc (of_int n * r)),
               train_inputs := Some (slice_to a (trunc (of_int n * r))),
               test_inputs := Some (slice_from a (trunc (of_int n * r))),
               train_labels := Some (slice_to b (trunc (of_int n * r))),
               test_labels := Some (slice_from b (trunc (of_int n * r)))\<rparr>)"
  using assms by (simp add: split_dataset_def slice_dataset_Inr)

lemma np_min_Inr:
  assumes "scalars d \<noteq> []"
  shows "np_min d = Inr (Min (set (scalars d)))"
proof -
  from assms obtain x xs where e: "scalars d = x # xs" by (cases "scalars d") auto
  have "fold min xs x = Min (set (x # xs))" by (rule Min.set_eq_fold[symmetric])
  then show ?thesis by (simp add: np_min_def e)
qed

lemma np_max_Inr:
  assumes "scalars d \<noteq> []"
  shows "np_max d = Inr (Max (set (scalars d)))"
proof -
  from assms obtain x xs where e: "scalars d = x # xs" by (cases "scalars d") auto
  have "fold max xs x = Max (set (x # xs))" by (rule Max.set_eq_fold[symmetric])
  then show ?thesis by (simp add: np_max_def e)
qed

lemma load_dataset_try_Inr:
  assumes "fs filename = Some f" and "f ''data'' = Some d" and "f ''labels'' = Some l"
    and "len d = len l" and "len d \<noteq> 0" and "scalars d \<noteq> []"
  shows "load_dataset_try fs self filename =
    (Inr (), self\<lparr>inputs := Some d, labels := Some l, dataset_size := Some (len d),
        inputs_range := Some (Min (set (scalars d)), Max (set (scalars d))),
        split := Some (len d),
        train_inputs := Some d, test_inputs := Some (d\<lparr>rows := []\<rparr>),
        train_labels := Some l, test_labels := Some (l\<lparr>rows := []\<rparr>)\<rparr>)"
proof -
  let ?s = "self\<lparr>inputs := Some d, labels := Some l, dataset_size := Some (len d),
        inputs_range := Some (Min (set (scalars d)), Max (set (scalars d)))\<rparr>"
  have k: "0 \<le> len d" by (simp add: len_def)
  have "split_dataset ?s (PyInt (len d)) =
    (Inr (), ?s\<lparr>split := Some (len d),
               train_inputs := Some (slice_to d (len d)), test_inputs := Some (slice_from d (len d)),
               train_labels := Some (slice_to l (len d)), test_labels := Some (slice_from l (len d))\<rparr>)"
    using split_dataset_int[of ?s d l "len d" "len d"] assms(5) k by simp
  then show ?thesis
    using assms slice_whole[of d] slice_whole[of l]
    by (simp add: load_dataset_try_def Let_def np_min_Inr np_max_Inr)
qed

lemma load_dataset_try_Inr_D:
  assumes "fst (load_dataset_try fs self filename) = Inr ()"
  shows "\<exists>f d l. fs filename = Some f \<and> f ''data'' = Some d \<and> f ''labels'' = Some l
           \<and> len d = len l \<and> len d \<noteq> 0 \<and> scalars d \<noteq> []"
proof -
  from assms obtain f where f: "fs filename = Some f"
    by (cases "fs filename") (auto simp: load_dataset_try_def)
  from assms f obtain d where d: "f ''data'' = Some d"
    by (cases "f ''data''") (auto simp: load_dataset_try_def)
  from assms f d obtain l where l: "f ''labels'' = Some l"
    by (cases "f ''labels''") (auto simp: load_dataset_try_def)
  from assms f d l have e: "len d = len l" and z: "len d \<noteq> 0"
    by (auto simp: load_dataset_try_def Let_def split: if_splits)
  have "scalars d \<noteq> []"
  proof
    assume "scalars d = []"
    then have "np_min d = Inl (ValueError ''zero-size array to reduction operation minimum which has no identity'')"
      by (simp add: np_min_def)
    with assms f d l e z show False
      by (simp add: load_dataset_try_def Let_def)
  qed
  with f d l e z show ?thesis by blast
qed

lemma load_dataset_fst:
  "fst (load_dataset fs self filename) = Inr () \<longleftrightarrow>
     last4 filename = ''.npz'' \<and> fst (load_dataset_try fs self filename) = Inr ()"
  by (auto simp: load_dataset_def split: prod.splits sum.splits)

lemma xor_load:
  "load_dataset xor_fs net ''xor.npz'' =
    (Inr (), net\<lparr>inputs := Some XOR_inputs, labels := Some XOR_targets, dataset_size := Some 4,
        inputs_range := Some (0, 1), split := Some 4,
        train_inputs := Some XOR_inputs, test_inputs := Some (XOR_inputs\<lparr>rows := []\<rparr>),
        train_labels := Some XOR_targets, test_labels := Some (XOR_targets\<lparr>rows := []\<rparr>)\<rparr>)"
proof -
  have "load_dataset_try xor_fs net ''xor.npz'' =
    (Inr (), net\<lparr>inputs := Some XOR_inputs, labels := Some XOR_targets,
        dataset_size := Some (len XOR_inputs),
        inputs_range := Some (Min (set (scalars XOR_inputs)), Max (set (scalars XOR_inputs))),
        split := Some (len XOR_inputs),
        train_inputs := Some XOR_inputs, test_inputs := Some (XOR_inputs\<lparr>rows := []\<rparr>),
        train_labels := Some XOR_targets, test_labels := Some (XOR_targets\<lparr>rows := []\<rparr>)\<rparr>)"
    by (rule load_dataset_try_Inr[where f = "[''data'' \<mapsto> XOR_inputs, ''labels'' \<mapsto> XOR_targets]"])
       (simp_all add: xor_fs_def len_def scalars_def XOR_inputs_def XOR_targets_def)
  moreover have "len XOR_inputs = 4" "Min (set (scalars XOR_inputs)) = 0"
    "Max (set (scalars XOR_inputs)) = 1"
    by (simp_all add: len_def scalars_def XOR_inputs_def)
  ultimately show ?thesis by (simp add: load_dataset_def last4_def)
qed

lemma pixel_load:
  "load_dataset pixel_fs net ''pixels.npz'' =
    (Inr (), net\<lparr>inputs := Some pixels, labels := Some pixel_labels, dataset_size := Some 2,
        inputs_range := Some (0, 255), split := Some 2,
        train_inputs := Some pixels, test_inputs := Some (pixels\<lparr>rows := []\<rparr>),
        train_labels := Some pixel_labels, test_labels := Some (pixel_labels\<lparr>rows := []\<rparr>)\<rparr>)"
proof -
  have "load_dataset_try pixel_fs net ''pixels.npz'' =
    (Inr (), net\<lparr>inputs := Some pixels, labels := Some pixel_labels,
        dataset_size := Some (len pixels),
        inputs_range := Some (Min (set (scalars pixels)), Max (set (scalars pixels))),
        split := Some (len pixels),
        train_inputs := Some pixels, test_inputs := Some (pixels\<lparr>rows := []\<rparr>),
        train_labels := Some pixel_labels, test_labels := Some (pixel_labels\<lparr>rows := []\<rparr>)\<rparr>)"
    by (rule load_dataset_try_Inr[where f = "[''data'' \<mapsto> pixels, ''labels'' \<mapsto> pixel_labels]"])
       (simp_all add: pixel_fs_def len_def scalars_def pixels_def pixel_labels_def)
  moreover have "len pixels = 2" "Min (set (scalars pixels)) = 0"
    "Max (set (scalars pixels)) = 255"
    by (simp_all add: len_def scalars_def pixels_def)
  ultimately show ?thesis by (simp add: load_dataset_def last4_def)
qed

lemma scalars_rescale:
  "scalars (rescale_numpy_array a r1 r2) = [] \<longleftrightarrow> scalars a = []"
  by (simp add: scalars_def rescale_numpy_array_def Let_def)

lemma rescale_inputs_no_dtype_failure:
  assumes "rescale_inputs self old_range new_range None = (Inl e, s)"
  shows "s = self"
proof (cases "inputs self")
  case None
  with assms show ?thesis by (simp add: rescale_inputs_def)
next
  case (Some a)
  show ?thesis
  proof (cases "scalars a = []")
    case True
    then have "np_min a = Inl (ValueError ''zero-size array to reduction operation minimum which has no identity'')"
      by (simp add: np_min_def)
    with assms Some show ?thesis by (simp add: rescale_inputs_def Let_def)
  next
    case False
    let ?b = "rescale_numpy_array a old_range new_range"
    from False have "scalars ?b \<noteq> []" by (simp add: scalars_rescale)
    then have "np_min ?b = Inr (Min (set (scalars ?b)))" "np_max ?b = Inr (Max (set (scalars ?b)))"
      by (simp_all add: np_min_Inr np_max_Inr)
    with assms Some False show ?thesis
      by (simp add: rescale_inputs_def Let_def np_min_Inr np_max_Inr split: if_splits)
  qed
qed

text \<open>
  C7. On a network whose \<^verbatim>\<open>inputs\<close> and \<^verbatim>\<open>labels\<close> are loaded and whose
  \<^verbatim>\<open>dataset_size\<close> is not 0, \<^verbatim>\<open>split_dataset(s)\<close> succeeds for every float \<open>s\<close> in
  \<open>[0, 1]\<close> and every integer \<open>s\<close> in \<open>[0, dataset_size]\<close>; it leaves \<^verbatim>\<open>inputs\<close> and
  \<^verbatim>\<open>labels\<close> as they are, and afterwards \<^verbatim>\<open>train_inputs\<close> followed by \<^verbatim>\<open>test_inputs\<close>
  is \<^verbatim>\<open>inputs\<close>, and \<^verbatim>\<open>train_labels\<close> followed by \<^verbatim>\<open>test_labels\<close> is \<^verbatim>\<open>labels\<close>.
\<close>

theorem split_dataset_roundtrip:
  assumes "inputs self = Some a" and "labels self = Some b"
    and "dataset_size self = Some n" and "n \<noteq> 0"
    and "(\<exists>r. sp = PyFloat r \<and> 0 \<le> r \<and> r \<le> 1) \<or> (\<exists>k. sp = PyInt k \<and> 0 \<le> k \<and> k \<le> n)"
  shows "\<exists>s tr te trl tel.
           split_dataset self sp = (Inr (), s)
           \<and> inputs s = Some a \<and> labels s = Some b
           \<and> train_inputs s = Some tr \<and> test_inputs s = Some te \<and> concatenate tr te = a
           \<and> train_labels s = Some trl \<and> test_labels s = Some tel \<and> concatenate trl tel = b"
  using assms(5)
proof
  assume "\<exists>r. sp = PyFloat r \<and> 0 \<le> r \<and> r \<le> 1"
  then obtain r where "sp = PyFloat r" "0 \<le> r" "r \<le> 1" by blast
  then show ?thesis
    using split_dataset_float[OF assms(1-4), of r] assms(1,2) by (simp add: concatenate_slices)
next
  assume "\<exists>k. sp = PyInt k \<and> 0 \<le> k \<and> k \<le> n"
  then obtain k where "sp = PyInt k" "0 \<le> k" "k \<le> n" by blast
  then show ?thesis
    using split_dataset_int[OF assms(1-4), of k] assms(1,2) by (simp add: concatenate_slices)
qed

theorem split_dataset_roundtrip_witness:
  "inputs xor_loaded = Some XOR_inputs \<and> labels xor_loaded = Some XOR_targets
   \<and> dataset_size xor_loaded = Some 4 \<and> (4::int) \<noteq> 0
   \<and> (0::real) \<le> 1/2 \<and> (1/2::real) \<le> 1
   \<and> (\<exists>s tr te trl tel.
           split_dataset xor_loaded (PyFloat (1/2)) = (Inr (), s)
           \<and> inputs s = Some XOR_inputs \<and> labels s = Some XOR_targets
           \<and> train_inputs s = Some tr \<and> test_inputs s = Some te
           \<and> concatenate tr te = XOR_inputs
           \<and> train_labels s = Some trl \<and> test_labels s = Some tel
           \<and> concatenate trl tel = XOR_targets)"
proof -
  have l: "inputs xor_loaded = Some XOR_inputs" "labels xor_loaded = Some XOR_targets"
    "dataset_size xor_loaded = Some 4" "(4::int) \<noteq> 0"
    by (simp_all add: xor_loaded_def xor_load)
  have v: "(\<exists>r. PyFloat (1/2) = PyFloat r \<and> 0 \<le> r \<and> r \<le> 1)
           \<or> (\<exists>k. PyFloat (1/2) = PyInt k \<and> 0 \<le> k \<and> k \<le> (4::int))"
    by (intro disjI1 exI[of _ "1/2"]) simp
  from split_dataset_roundtrip[OF l v] l show ?thesis by simp
qed

text \<open>
  C1, as stated, fails in its last part: loading the four XOR samples succeeds and sets
  \<^verbatim>\<open>dataset_size\<close> to 4, but the split is at 4, with all four inputs in the train
  partition and none in the test partition. The 50/50 split that \<^verbatim>\<open>split_dataset\<close>
  makes with its default argument \<open>0.50\<close> is at 2 and is a different state.
\<close>

theorem load_dataset_split_counterexample:
  "fst (load_dataset xor_fs net ''xor.npz'') = Inr ()
   \<and> dataset_size xor_loaded = Some 4
   \<and> split xor_loaded = Some 4
   \<and> train_inputs xor_loaded = Some XOR_inputs
   \<and> test_inputs xor_loaded = Some (XOR_inputs\<lparr>rows := []\<rparr>)
   \<and> split (snd (split_dataset xor_loaded (PyFloat (1/2)))) = Some 2
   \<and> train_inputs (snd (split_dataset xor_loaded (PyFloat (1/2)))) \<noteq> train_inputs xor_loaded
   \<and> snd (split_dataset xor_loaded (PyFloat (1/2))) \<noteq> xor_loaded"
proof -
  have l: "inputs xor_loaded = Some XOR_inputs" "labels xor_loaded = Some XOR_targets"
    "dataset_size xor_loaded = Some 4" "split xor_loaded = Some 4"
    "train_inputs xor_loaded = Some XOR_inputs"
    "test_inputs xor_loaded = Some (XOR_inputs\<lparr>rows := []\<rparr>)"
    by (simp_all add: xor_loaded_def xor_load)
  have t: "trunc (of_int 4 * (1/2)) = 2" by (simp add: trunc_def)
  have s: "split (snd (split_dataset xor_loaded (PyFloat (1/2)))) = Some 2"
    "train_inputs (snd (split_dataset xor_loaded (PyFloat (1/2))))
      = Some (slice_to XOR_inputs 2)"
    using split_dataset_float[OF l(1,2,3), of "1/2"] t by simp_all
  have "slice_to XOR_inputs 2 \<noteq> XOR_inputs"
    by (simp add: slice_to_def slice_bound_def XOR_inputs_def)
  with s l have "train_inputs (snd (split_dataset xor_loaded (PyFloat (1/2))))
      \<noteq> train_inputs xor_loaded" by simp
  moreover from this have "snd (split_dataset xor_loaded (PyFloat (1/2))) \<noteq> xor_loaded" by auto
  ultimately show ?thesis using l s by (simp add: xor_load)
qed

text \<open>
  C1, amended. \<^verbatim>\<open>load_dataset\<close> succeeds exactly when the path ends in \<^verbatim>\<open>.npz\<close> and
  its archive holds a data and a label array of equal length, not 0, with at least one
  scalar in the data. Every such call sets \<^verbatim>\<open>inputs\<close> and \<^verbatim>\<open>labels\<close> to the two arrays,
  \<^verbatim>\<open>dataset_size\<close> to the number of inputs and \<^verbatim>\<open>inputs_range\<close> to the least and the
  greatest scalar of the inputs, and splits the dataset at \<^verbatim>\<open>dataset_size\<close>: the train
  partitions are the whole arrays and the test partitions are empty.
\<close>

theorem load_dataset_success:
  "(fst (load_dataset fs self filename) = Inr ())
     = (last4 filename = ''.npz''
        \<and> (\<exists>f d l. fs filename = Some f \<and> f ''data'' = Some d \<and> f ''labels'' = Some l
               \<and> len d = len l \<and> len d \<noteq> 0 \<and> scalars d \<noteq> []))
   \<and> (\<forall>f d l. last4 filename = ''.npz'' \<and> fs filename = Some f \<and> f ''data'' = Some d
          \<and> f ''labels'' = Some l \<and> len d = len l \<and> len d \<noteq> 0 \<and> scalars d \<noteq> []
        \<longrightarrow> load_dataset fs self filename =
          (Inr (), self\<lparr>inputs := Some d, labels := Some l, dataset_size := Some (len d),
              inputs_range := Some (Min (set (scalars d)), Max (set (scalars d))),
              split := Some (len d),
              train_inputs := Some d, test_inputs := Some (d\<lparr>rows := []\<rparr>),
              train_labels := Some l, test_labels := Some (l\<lparr>rows := []\<rparr>)\<rparr>))"
proof (intro conjI allI impI)
  show "(fst (load_dataset fs self filename) = Inr ())
     = (last4 filename = ''.npz''
        \<and> (\<exists>f d l. fs filename = Some f \<and> f ''data'' = Some d \<and> f ''labels'' = Some l
               \<and> len d = len l \<and> len d \<noteq> 0 \<and> scalars d \<noteq> []))"
    unfolding load_dataset_fst
    using load_dataset_try_Inr_D[of fs self filename] load_dataset_try_Inr[of fs filename _ _ _ self]
    by (metis fst_conv)
next
  fix f d l
  assume "last4 filename = ''.npz'' \<and> fs filename = Some f \<and> f ''data'' = Some d
          \<and> f ''labels'' = Some l \<and> len d = len l \<and> len d \<noteq> 0 \<and> scalars d \<noteq> []"
  then show "load_dataset fs self filename =
          (Inr (), self\<lparr>inputs := Some d, labels := Some l, dataset_size := Some (len d),
              inputs_range := Some (Min (set (scalars d)), Max (set (scalars d))),
              split := Some (len d),
              train_inputs := Some d, test_inputs := Some (d\<lparr>rows := []\<rparr>),
              train_labels := Some l, test_labels := Some (l\<lparr>rows := []\<rparr>)\<rparr>)"
    using load_dataset_try_Inr[of fs filename f d l self] by (simp add: load_dataset_def)
qed

theorem load_dataset_success_witness:
  "last4 ''xor.npz'' = ''.npz''
   \<and> xor_fs ''xor.npz'' = Some [''data'' \<mapsto> XOR_inputs, ''labels'' \<mapsto> XOR_targets]
   \<and> len XOR_inputs = len XOR_targets \<and> len XOR_inputs \<noteq> 0 \<and> scalars XOR_inputs \<noteq> []
   \<and> fst (load_dataset xor_fs net ''xor.npz'') = Inr ()
   \<and> load_dataset xor_fs net ''xor.npz'' =
       (Inr (), net\<lparr>inputs := Some XOR_inputs, labels := Some XOR_targets,
           dataset_size := Some 4, inputs_range := Some (0, 1), split := Some 4,
           train_inputs := Some XOR_inputs, test_inputs := Some (XOR_inputs\<lparr>rows := []\<rparr>),
           train_labels := Some XOR_targets, test_labels := Some (XOR_targets\<lparr>rows := []\<rparr>)\<rparr>)"
proof -
  let ?f = "[''data'' \<mapsto> XOR_inputs, ''labels'' \<mapsto> XOR_targets]"
  have h: "last4 ''xor.npz'' = ''.npz''" "xor_fs ''xor.npz'' = Some ?f"
    "?f ''data'' = Some XOR_inputs" "?f ''labels'' = Some XOR_targets"
    "len XOR_inputs = len XOR_targets" "len XOR_inputs \<noteq> 0" "scalars XOR_inputs \<noteq> []"
    by (simp_all add: last4_def xor_fs_def len_def scalars_def XOR_inputs_def XOR_targets_def)
  have v: "len XOR_inputs = 4" "Min (set (scalars XOR_inputs)) = 0"
    "Max (set (scalars XOR_inputs)) = 1"
    by (simp_all add: len_def scalars_def XOR_inputs_def)
  from load_dataset_success[of xor_fs net "''xor.npz''"] h
  have "load_dataset xor_fs net ''xor.npz'' =
       (Inr (), net\<lparr>inputs := Some XOR_inputs, labels := Some XOR_targets,
           dataset_size := Some (len XOR_inputs),
           inputs_range := Some (Min (set (scalars XOR_inputs)), Max (set (scalars XOR_inputs))),
           split := Some (len XOR_inputs),
           train_inputs := Some XOR_inputs, test_inputs := Some (XOR_inputs\<lparr>rows := []\<rparr>),
           train_labels := Some XOR_targets, test_labels := Some (XOR_targets\<lparr>rows := []\<rparr>)\<rparr>)"
    by blast
  then show ?thesis using h v by simp
qed

text \<open>
  C2 at a concrete input. The network holds integer pixel values in \<open>[0, 255]\<close>. The call
  \<^verbatim>\<open>rescale_inputs((0, 1), (0, 1), float)\<close> fails because values lie outside
  \<open>old_range\<close>, and \<^verbatim>\<open>rescale_inputs((0, 255), (1, 0), float)\<close> fails because
  \<open>new_range\<close> is inverted; after either failure \<^verbatim>\<open>inputs\<close> is no longer the array it
  was: line 78 has already replaced it by its conversion to the new element type.
  Without a \<^verbatim>\<open>new_dtype\<close> a failed call leaves the network as it was
  (lemma \<open>rescale_inputs_no_dtype_failure\<close>).
\<close>

theorem rescale_inputs_failure_converts_inputs:
  "inputs pixel_net = Some pixels
   \<and> rescale_inputs pixel_net (0, 1) (0, 1) (Some DFloat)
       = (Inl (Exception ''old_range values are wrong'' []),
          pixel_net\<lparr>inputs := Some (pixels\<lparr>dtype := DFloat\<rparr>)\<rparr>)
   \<and> rescale_inputs pixel_net (0, 255) (1, 0) (Some DFloat)
       = (Inl (Exception ''new_range values are wrong'' []),
          pixel_net\<lparr>inputs := Some (pixels\<lparr>dtype := DFloat\<rparr>)\<rparr>)
   \<and> inputs (snd (rescale_inputs pixel_net (0, 1) (0, 1) (Some DFloat))) \<noteq> inputs pixel_net
   \<and> inputs (snd (rescale_inputs pixel_net (0, 255) (1, 0) (Some DFloat))) \<noteq> inputs pixel_net"
proof -
  have i: "inputs pixel_net = Some pixels" by (simp add: pixel_net_def pixel_load)
  have a: "astype pixels DFloat = pixels\<lparr>dtype := DFloat\<rparr>"
    by (simp add: astype_def pixels_def)
  have m: "np_min (pixels\<lparr>dtype := DFloat\<rparr>) = Inr 0" "np_max (pixels\<lparr>dtype := DFloat\<rparr>) = Inr 255"
    by (simp_all add: np_min_def np_max_def scalars_def pixels_def)
  have 1: "rescale_inputs pixel_net (0, 1) (0, 1) (Some DFloat)
       = (Inl (Exception ''old_range values are wrong'' []),
          pixel_net\<lparr>inputs := Some (pixels\<lparr>dtype := DFloat\<rparr>)\<rparr>)"
    by (simp add: rescale_inputs_def i a m Let_def)
  have 2: "rescale_inputs pixel_net (0, 255) (1, 0) (Some DFloat)
       = (Inl (Exception ''new_range values are wrong'' []),
          pixel_net\<lparr>inputs := Some (pixels\<lparr>dtype := DFloat\<rparr>)\<rparr>)"
    by (simp add: rescale_inputs_def i a m Let_def)
  have "pixels\<lparr>dtype := DFloat\<rparr> \<noteq> pixels" by (simp add: pixels_def)
  then show ?thesis using i 1 2 by simp
qed

end
